theory Spec2Isabelle
  imports Complex_Main
begin

section \<open>Values and errors\<close>

text \<open>
  The temperature columns hold IEEE floating-point numbers. A column value is modelled as
  not-a-number, one of the two infinities, or a finite number, the finite numbers being
  exact rationals: comparisons against the integer thresholds of the sliders (all exactly
  representable) are then the IEEE comparisons, while the rounding error of a floating-point
  division is not modelled.
\<close>

datatype float = NaN | NegInf | PosInf | Finite rat

text \<open>The exceptions the modelled code can raise: Python's \<^verbatim>\<open>ZeroDivisionError\<close>,
  the \<^verbatim>\<open>SilentException\<close> of shiny's \<^verbatim>\<open>req\<close>, and an exception coming out of the
  forecasting library.\<close>

datatype error = ZeroDivisionError | SilentException | LibraryError

text \<open>\<^verbatim>\<open>y < temp\<close> for a column value and a Python integer: false for NaN.\<close>

fun float_lt_int :: "float \<Rightarrow> int \<Rightarrow> bool" where
  "float_lt_int NaN temp = False"
| "float_lt_int NegInf temp = True"
| "float_lt_int PosInf temp = False"
| "float_lt_int (Finite r) temp = (r < of_int temp)"

text \<open>\<^verbatim>\<open>a / b\<close> on two Python integers (here two row counts): true division, raising on a
  zero divisor.\<close>

definition py_truediv :: "nat \<Rightarrow> nat \<Rightarrow> error + rat" where
  "py_truediv a b = (if b = 0 then Inl ZeroDivisionError else Inr (of_nat a / of_nat b))"

text \<open>\<^verbatim>\<open>range(a, b)\<close>: the integers from \<open>a\<close> up to \<open>b - 1\<close>.\<close>

definition py_range :: "int \<Rightarrow> int \<Rightarrow> int list" where
  "py_range a b = [a..b - 1]"

text \<open>Rounding to the nearest integer, halves to the even neighbour (\<^verbatim>\<open>rint\<close>), and the
  rounding of \<^verbatim>\<open>Series.round(decimals)\<close> built on it: scale, round, scale back.\<close>

definition rint :: "rat \<Rightarrow> int" where
  "rint x =
     (let f = \<lfloor>x\<rfloor>; d = x - of_int f
      in if d < 1 / 2 then f else if 1 / 2 < d then f + 1 else if even f then f else f + 1)"

definition round_decimals :: "nat \<Rightarrow> rat \<Rightarrow> rat" where
  "round_decimals decimals x = of_int (rint (x * 10 ^ decimals)) / 10 ^ decimals"

section \<open>Data frames\<close>

text \<open>A row of the frame of \<^verbatim>\<open>get_weather\<close>: columns \<^verbatim>\<open>ds\<close> (seconds since the epoch)
  and \<^verbatim>\<open>y\<close>.\<close>

record weather_row =
  w_ds :: int
  w_y :: float

text \<open>A row of the frame the forecasting model predicts: columns \<^verbatim>\<open>ds\<close>, \<^verbatim>\<open>yhat\<close>,
  \<^verbatim>\<open>yhat_lower\<close>, \<^verbatim>\<open>yhat_upper\<close>.\<close>

record forecast_row =
  f_ds :: int
  yhat :: float
  yhat_lower :: float
  yhat_upper :: float

text \<open>A row of the table of thresholds: columns \<^verbatim>\<open>Temp\<close>, \<^verbatim>\<open>Days Below\<close>,
  \<^verbatim>\<open>Proportion Below\<close>.\<close>

record table_row =
  Temp :: int
  Days_Below :: nat
  Proportion_Below :: rat

section \<open>The table of thresholds\<close>

text \<open>
  The loop of \<^verbatim>\<open>table_weather\<close> and \<^verbatim>\<open>table_forecast\<close>, which differ in the column they
  compare (\<^verbatim>\<open>y\<close>, \<^verbatim>\<open>yhat_lower\<close>): for each \<^verbatim>\<open>temp\<close> of the range,
  \<^verbatim>\<open>days_below = df[df[col] < temp].shape[0]\<close>,
  \<^verbatim>\<open>proportion_below = days_below / df.shape[0]\<close>, and the three values are appended
  to \<^verbatim>\<open>data\<close>. The division raises when the frame has no row.
\<close>

fun sweep :: "('r \<Rightarrow> float) \<Rightarrow> 'r list \<Rightarrow> int list \<Rightarrow> table_row list \<Rightarrow> error + table_row list" where
  "sweep col df [] data = Inr data"
| "sweep col df (temp # temps) data =
     (let days_below = length (filter (\<lambda>r. float_lt_int (col r) temp) df)
      in case py_truediv days_below (length df) of
           Inl e \<Rightarrow> Inl e
         | Inr proportion_below \<Rightarrow>
             sweep col df temps
               (data @ [\<lparr>Temp = temp, Days_Below = days_below,
                         Proportion_Below = proportion_below\<rparr>]))"

text \<open>\<^verbatim>\<open>sort_values(by="Temp", ascending=False)\<close>.\<close>

definition sort_values_desc :: "table_row list \<Rightarrow> table_row list" where
  "sort_values_desc rows = sort_key (\<lambda>r. - Temp r) rows"

text \<open>\<^verbatim>\<open>new_df["Proportion Below"] = new_df["Proportion Below"].round(3)\<close>.\<close>

definition round_proportion :: "table_row list \<Rightarrow> table_row list" where
  "round_proportion rows =
     map (\<lambda>r. r\<lparr>Proportion_Below := round_decimals 3 (Proportion_Below r)\<rparr>) rows"

text \<open>\<^verbatim>\<open>table_weather\<close>, given the frame of \<^verbatim>\<open>get_weather()\<close> and the pair of
  \<^verbatim>\<open>input.temp_range()\<close>; the result is the frame handed to the data grid. When the
  range is empty the loop appends nothing, and sorting and rounding leave the table without
  rows.\<close>

definition table_weather :: "weather_row list \<Rightarrow> int \<times> int \<Rightarrow> error + table_row list" where
  "table_weather df temp_range =
     (let min_temp = fst temp_range;
          max_temp = snd temp_range + 1
      in case sweep w_y df (py_range min_temp max_temp) [] of
           Inl e \<Rightarrow> Inl e
         | Inr data \<Rightarrow> Inr (round_proportion (sort_values_desc data)))"

text \<open>\<^verbatim>\<open>req(cond)\<close>: cancels the computation with a silent exception when the condition
  is false.\<close>

definition req :: "bool \<Rightarrow> error + unit" where
  "req cond = (if cond then Inr () else Inl SilentException)"

section \<open>The forecast\<close>

text \<open>
  \<^verbatim>\<open>forecast\<close>. The forecasting library is a black box, taken as two parameters that may
  fail: \<open>fit growth df\<close> for \<^verbatim>\<open>Prophet(interval_width=0.95, growth=growth)\<close> followed by
  \<^verbatim>\<open>m.fit(df)\<close>, and \<open>predict m periods\<close> for \<^verbatim>\<open>make_future_dataframe\<close> followed by
  \<^verbatim>\<open>m.predict\<close>. Fitting is an effect of interest, so the function threads a log of the
  frames handed to \<open>fit\<close>. The removal of the time zone from \<^verbatim>\<open>ds\<close> leaves the UTC
  timestamps as they are.
\<close>

definition forecast ::
  "(string \<Rightarrow> weather_row list \<Rightarrow> error + 'm) \<Rightarrow> ('m \<Rightarrow> int \<Rightarrow> error + forecast_row list) \<Rightarrow>
   weather_row list \<Rightarrow> string \<Rightarrow> int \<Rightarrow> weather_row list list \<Rightarrow>
   (error + 'm \<times> forecast_row list) \<times> weather_row list list" where
  "forecast fit predict df forecast_trend forecast_years fitted =
     (case req (length df > 364) of
        Inl e \<Rightarrow> (Inl e, fitted)
      | Inr _ \<Rightarrow>
          (case fit forecast_trend df of
             Inl e \<Rightarrow> (Inl e, fitted @ [df])
           | Inr m \<Rightarrow>
               (case predict m (forecast_years * 365) of
                  Inl e \<Rightarrow> (Inl e, fitted @ [df])
                | Inr future \<Rightarrow> (Inr (m, future), fitted @ [df]))))"

text \<open>\<^verbatim>\<open>plot_forecast\<close>, given the result of \<^verbatim>\<open>forecast()\<close>; the plotting call is a
  parameter.\<close>

definition plot_forecast ::
  "('m \<Rightarrow> forecast_row list \<Rightarrow> string \<Rightarrow> int \<Rightarrow> 'p) \<Rightarrow> (error + 'm \<times> forecast_row list) \<Rightarrow>
   string \<Rightarrow> int \<Rightarrow> error + 'p" where
  "plot_forecast plot fc units temp =
     (let unit = (if units = ''celsius'' then ''C'' else ''F'')
      in case fc of
           Inl e \<Rightarrow> Inl e
         | Inr (m, df) \<Rightarrow> Inr (plot m df (''Daily Minimum Temperature '' @ unit) temp))"

text \<open>\<^verbatim>\<open>table_forecast\<close>, given the result of \<^verbatim>\<open>forecast()\<close> and the pair of
  \<^verbatim>\<open>input.temp_range()\<close>.\<close>

definition table_forecast ::
  "(error + 'm \<times> forecast_row list) \<Rightarrow> int \<times> int \<Rightarrow> error + table_row list" where
  "table_forecast fc temp_range =
     (case fc of
        Inl e \<Rightarrow> Inl e
      | Inr (m, df) \<Rightarrow>
          (let min_temp = fst temp_range;
               max_temp = snd temp_range + 1
           in case sweep yhat_lower df (py_range min_temp max_temp) [] of
                Inl e \<Rightarrow> Inl e
              | Inr data \<Rightarrow> Inr (round_proportion (sort_values_desc data))))"

section \<open>The session\<close>



section \<open>The preprocessing of the cities\<close>





section \<open>Properties of the loop\<close>

text \<open>The count of one threshold, and the row of the finished table for it.\<close>

definition days_below :: "('r \<Rightarrow> float) \<Rightarrow> 'r list \<Rightarrow> int \<Rightarrow> nat" where
  "days_below col df temp = length (filter (\<lambda>r. float_lt_int (col r) temp) df)"

definition raw_row :: "('r \<Rightarrow> float) \<Rightarrow> 'r list \<Rightarrow> int \<Rightarrow> table_row" where
  "raw_row col df temp =
     \<lparr>Temp = temp, Days_Below = days_below col df temp,
      Proportion_Below = of_nat (days_below col df temp) / of_nat (length df)\<rparr>"

definition final_row :: "('r \<Rightarrow> float) \<Rightarrow> 'r list \<Rightarrow> int \<Rightarrow> table_row" where
  "final_row col df temp =
     \<lparr>Temp = temp, Days_Below = days_below col df temp,
      Proportion_Below =
        round_decimals 3 (of_nat (days_below col df temp) / of_nat (length df))\<rparr>"

lemma floor_rat_numeral_div [simp]:
  "\<lfloor>numeral a / numeral b :: rat\<rfloor> = numeral a div numeral b"
  by (metis floor_divide_of_int_eq of_int_numeral)

lemma floor_rat_one_div [simp]:
  "\<lfloor>1 / numeral b :: rat\<rfloor> = 1 div numeral b"
  by (metis floor_divide_of_int_eq of_int_numeral of_int_1)

lemma sweep_nonempty:
  "df \<noteq> [] \<Longrightarrow> sweep col df temps data = Inr (data @ map (raw_row col df) temps)"
  by (induction temps arbitrary: data)
     (simp_all add: py_truediv_def raw_row_def days_below_def Let_def)

lemma sweep_empty:
  "temps \<noteq> [] \<Longrightarrow> sweep col [] temps data = Inl ZeroDivisionError"
  by (cases temps) (simp_all add: py_truediv_def)

lemma sorted_neg_rev_upto: "sorted (map uminus (rev [i..j::int]))"
  using sorted_upto [of i j] by (simp add: sorted_map sorted_wrt_rev del: sorted_upto)

lemma sort_desc_rows:
  assumes g: "\<And>t. Temp (g t) = t"
  shows "sort_key (\<lambda>r. - Temp r) (map g [i..j]) = rev (map g [i..j])"
proof (rule map_sorted_distinct_set_unique [where f = "\<lambda>r. - Temp r"])
  have inj: "inj_on (\<lambda>r. - Temp r) (g ` {i..j})"
    by (rule inj_onI) (auto simp: g)
  show "inj_on (\<lambda>r. - Temp r)
          (set (sort_key (\<lambda>r. - Temp r) (map g [i..j])) \<union> set (rev (map g [i..j])))"
    using inj by simp
  have dg: "distinct (map g [i..j])"
    by (rule iffD2 [OF distinct_map])
       (auto intro!: inj_onI dest: arg_cong [where f = Temp] simp: g)
  show "distinct (map (\<lambda>r. - Temp r) (sort_key (\<lambda>r. - Temp r) (map g [i..j])))"
    using inj dg by (simp add: distinct_map)
  show "distinct (map (\<lambda>r. - Temp r) (rev (map g [i..j])))"
    using inj dg by (simp add: distinct_map)
  have "map (\<lambda>r. - Temp r) (rev (map g [i..j])) = map uminus (rev [i..j])"
    by (simp add: rev_map g)
  then show "sorted (map (\<lambda>r. - Temp r) (rev (map g [i..j])))"
    using sorted_neg_rev_upto by simp
qed simp_all

lemma round_raw_row:
  "round_proportion (map (raw_row col df) ts) = map (final_row col df) ts"
  by (simp add: round_proportion_def raw_row_def final_row_def)

text \<open>The body shared by the two tables, in closed form.\<close>

lemma table_body:
  "(case sweep col df (py_range low (high + 1)) [] of
      Inl e \<Rightarrow> Inl e
    | Inr data \<Rightarrow> Inr (round_proportion (sort_values_desc data))) =
   (if high < low then Inr []
    else if df = [] then Inl ZeroDivisionError
    else Inr (map (final_row col df) (rev [low..high])))"
proof -
  consider "high < low" | "low \<le> high" "df = []" | "low \<le> high" "df \<noteq> []"
    by linarith
  then show ?thesis
  proof cases
    case 1
    then show ?thesis
      by (simp add: py_range_def round_proportion_def sort_values_desc_def)
  next
    case 2
    then have "py_range low (high + 1) \<noteq> []"
      by (simp add: py_range_def)
    with 2 show ?thesis
      by (simp add: sweep_empty)
  next
    case 3
    have "sort_values_desc (map (raw_row col df) [low..high]) =
          rev (map (raw_row col df) [low..high])"
      unfolding sort_values_desc_def by (rule sort_desc_rows) (simp add: raw_row_def)
    with 3 show ?thesis
      by (simp add: sweep_nonempty py_range_def rev_map round_raw_row)
  qed
qed

lemma table_weather_eq:
  "table_weather df (low, high) =
   (if high < low then Inr []
    else if df = [] then Inl ZeroDivisionError
    else Inr (map (final_row w_y df) (rev [low..high])))"
  by (simp add: table_weather_def table_body)


section \<open>Auxiliary facts\<close>

lemma float_lt_int_iff:
  "float_lt_int x t \<longleftrightarrow> x = NegInf \<or> (\<exists>v. x = Finite v \<and> v < of_int t)"
  by (cases x) auto


lemma float_lt_int_mono: "t1 \<le> t2 \<Longrightarrow> float_lt_int x t1 \<Longrightarrow> float_lt_int x t2"
proof (cases x)
  case (Finite v)
  assume "t1 \<le> t2" "float_lt_int x t1"
  then have "v < of_int t1" "(of_int t1 :: rat) \<le> of_int t2" using Finite by simp_all
  then show ?thesis using Finite by simp
qed simp_all

lemma length_filter_mono:
  "(\<And>x. x \<in> set xs \<Longrightarrow> P x \<Longrightarrow> Q x) \<Longrightarrow> length (filter P xs) \<le> length (filter Q xs)"
  by (induction xs) auto

lemma days_below_mono: "t1 \<le> t2 \<Longrightarrow> days_below col df t1 \<le> days_below col df t2"
  unfolding days_below_def by (rule length_filter_mono) (rule float_lt_int_mono)





lemma table_weather_rows:
  assumes "table_weather df (low, high) = Inr rows" "row \<in> set rows"
  shows "df \<noteq> []" "low \<le> Temp row" "Temp row \<le> high" "row = final_row w_y df (Temp row)"
  using assms by (auto simp: table_weather_eq final_row_def split: if_splits)




lemma days_below_all_nan:
  "list_all (\<lambda>r. col r = NaN) df \<Longrightarrow> days_below col df t = 0"
  by (induction df) (simp_all add: days_below_def)

section \<open>The claims\<close>

subsection \<open>C1: the proportion of a row\<close>




subsection \<open>C2: rows without a value\<close>




subsection \<open>C3: the frame without rows\<close>

text \<open>
  Claim C3, as stated, says that a series without a value gives a distinct empty-input
  error and neither a generic division failure nor a silent zero. On the frame without rows
  the division by the number of rows raises Python's own \<^verbatim>\<open>ZeroDivisionError\<close>, and on
  a frame whose only row is NaN the table holds the proportion 0.
\<close>

theorem empty_frame_generic_error:
  "table_weather [] (0, 10) = Inl ZeroDivisionError \<and>
   table_weather [\<lparr>w_ds = 0, w_y = NaN\<rparr>] (0, 0) =
     Inr [\<lparr>Temp = 0, Days_Below = 0, Proportion_Below = 0\<rparr>]"
  by (simp add: table_weather_def py_range_def py_truediv_def Let_def sort_values_desc_def
      round_proportion_def round_decimals_def rint_def upto.simps)

text \<open>
  Claim C3, amended: for every range with \<open>low \<le> high\<close>, the table of the frame
  without rows is the \<^verbatim>\<open>ZeroDivisionError\<close> of the division, and the table of a
  non-empty frame whose values are all NaN has a row with count 0 and proportion 0 for
  every threshold of the range.
\<close>

theorem empty_frame_zero_division:
  assumes "low \<le> high"
  shows "table_weather [] (low, high) = Inl ZeroDivisionError \<and>
         (df \<noteq> [] \<and> list_all (\<lambda>r. w_y r = NaN) df \<longrightarrow>
            table_weather df (low, high) =
              Inr (map (\<lambda>t. \<lparr>Temp = t, Days_Below = 0, Proportion_Below = 0\<rparr>)
                     (rev [low..high])))"
  using assms
  by (simp add: table_weather_eq final_row_def days_below_all_nan round_decimals_def rint_def)

theorem empty_frame_zero_division_witness:
  "(3::int) \<le> 4 \<and> table_weather [] (3, 4) = Inl ZeroDivisionError \<and>
   table_weather [\<lparr>w_ds = 0, w_y = NaN\<rparr>, \<lparr>w_ds = 86400, w_y = NaN\<rparr>] (3, 4) =
     Inr [\<lparr>Temp = 4, Days_Below = 0, Proportion_Below = 0\<rparr>,
          \<lparr>Temp = 3, Days_Below = 0, Proportion_Below = 0\<rparr>]"
  using empty_frame_zero_division
    [of 3 4 "[\<lparr>w_ds = 0, w_y = NaN\<rparr>, \<lparr>w_ds = 86400, w_y = NaN\<rparr>]"]
  by simp

subsection \<open>C4: the number of rows\<close>




subsection \<open>C5: the order of the rows\<close>

text \<open>
  Claim C5: whatever the frame and its order, the thresholds of a returned table are
  \<open>high\<close>, \<open>high - 1\<close>, ..., \<open>low\<close>: strictly descending from the first row to the
  last.
\<close>

theorem table_descending:
  assumes "table_weather df (low, high) = Inr rows"
  shows "map Temp rows = rev [low..high] \<and> sorted_wrt (\<lambda>a b. Temp b < Temp a) rows"
proof -
  have rows: "rows = map (final_row w_y df) (rev [low..high])"
    using assms by (auto simp: table_weather_eq split: if_splits)
  have temps: "map Temp rows = rev [low..high]"
    unfolding rows by (simp add: final_row_def o_def)
  have "sorted_wrt (\<lambda>a b. b < a) (map Temp rows)"
    unfolding temps by (simp add: sorted_wrt_rev)
  then have "sorted_wrt (\<lambda>a b. Temp b < Temp a) rows"
    by (simp only: sorted_wrt_map)
  with temps show ?thesis by simp
qed

theorem table_descending_witness:
  "table_weather [\<lparr>w_ds = 0, w_y = Finite 25\<rparr>, \<lparr>w_ds = 86400, w_y = Finite 5\<rparr>] (9, 11) =
     Inr [\<lparr>Temp = 11, Days_Below = 1, Proportion_Below = 1 / 2\<rparr>,
          \<lparr>Temp = 10, Days_Below = 1, Proportion_Below = 1 / 2\<rparr>,
          \<lparr>Temp = 9, Days_Below = 1, Proportion_Below = 1 / 2\<rparr>] \<and>
   map Temp [\<lparr>Temp = 11, Days_Below = 1, Proportion_Below = 1 / 2\<rparr>,
          \<lparr>Temp = 10, Days_Below = 1, Proportion_Below = 1 / 2\<rparr>,
          \<lparr>Temp = 9, Days_Below = 1, Proportion_Below = 1 / 2 :: rat\<rparr>] = [11, 10, 9]"
proof -
  have h: "table_weather [\<lparr>w_ds = 0, w_y = Finite 25\<rparr>, \<lparr>w_ds = 86400, w_y = Finite 5\<rparr>] (9, 11) =
     Inr [\<lparr>Temp = 11, Days_Below = 1, Proportion_Below = 1 / 2\<rparr>,
          \<lparr>Temp = 10, Days_Below = 1, Proportion_Below = 1 / 2\<rparr>,
          \<lparr>Temp = 9, Days_Below = 1, Proportion_Below = 1 / 2\<rparr>]"
    by (simp add: table_weather_def py_range_def py_truediv_def Let_def sort_values_desc_def
      round_proportion_def round_decimals_def rint_def)
  show ?thesis using h table_descending [OF h] by simp
qed

subsection \<open>C6: strictly below\<close>

text \<open>
  Claim C6: the count of a row is the number of observations strictly less than its
  threshold (minus infinity, or a number less than the threshold); the observations equal
  to the threshold are outside it, so that the count and their number together do not
  exceed the number of rows. For the observations 10, 10, 10 and the threshold 10 the
  count is 0.
\<close>

theorem days_below_strict:
  assumes "table_weather df (low, high) = Inr rows" and "row \<in> set rows"
  shows "Days_Below row =
           length (filter (\<lambda>r. w_y r = NegInf \<or> (\<exists>v. w_y r = Finite v \<and> v < of_int (Temp row))) df) \<and>
         Days_Below row + length (filter (\<lambda>r. w_y r = Finite (of_int (Temp row))) df) \<le> length df"
proof -
  have row: "row = final_row w_y df (Temp row)"
    using assms by (rule table_weather_rows)
  have count: "Days_Below row = days_below w_y df (Temp row)"
    by (subst row) (simp add: final_row_def)
  have "length (filter (\<lambda>r. w_y r = Finite (of_int (Temp row))) df) \<le>
        length (filter (\<lambda>r. \<not> float_lt_int (w_y r) (Temp row)) df)"
    by (rule length_filter_mono) simp
  moreover have "days_below w_y df (Temp row) +
      length (filter (\<lambda>r. \<not> float_lt_int (w_y r) (Temp row)) df) = length df"
    unfolding days_below_def by (rule sum_length_filter_compl)
  ultimately have "Days_Below row + length (filter (\<lambda>r. w_y r = Finite (of_int (Temp row))) df) \<le> length df"
    using count by linarith
  moreover have "Days_Below row =
      length (filter (\<lambda>r. w_y r = NegInf \<or> (\<exists>v. w_y r = Finite v \<and> v < of_int (Temp row))) df)"
    using count by (simp add: days_below_def float_lt_int_iff)
  ultimately show ?thesis by simp
qed

theorem days_below_strict_witness:
  "table_weather [\<lparr>w_ds = 0, w_y = Finite 10\<rparr>, \<lparr>w_ds = 86400, w_y = Finite 10\<rparr>,
      \<lparr>w_ds = 172800, w_y = Finite 10\<rparr>] (10, 10) =
     Inr [\<lparr>Temp = 10, Days_Below = 0, Proportion_Below = 0\<rparr>] \<and>
   Days_Below \<lparr>Temp = 10, Days_Below = 0, Proportion_Below = 0 :: rat\<rparr> + 3 \<le> 3"
proof -
  have h: "table_weather [\<lparr>w_ds = 0, w_y = Finite 10\<rparr>, \<lparr>w_ds = 86400, w_y = Finite 10\<rparr>,
      \<lparr>w_ds = 172800, w_y = Finite 10\<rparr>] (10, 10) =
     Inr [\<lparr>Temp = 10, Days_Below = 0, Proportion_Below = 0\<rparr>]"
    by (simp add: table_weather_def py_range_def py_truediv_def Let_def sort_values_desc_def
      round_proportion_def round_decimals_def rint_def)
  have m: "\<lparr>Temp = 10, Days_Below = 0, Proportion_Below = 0 :: rat\<rparr> \<in>
           set [\<lparr>Temp = 10, Days_Below = 0, Proportion_Below = 0\<rparr>]"
    by simp
  show ?thesis
    using h days_below_strict [OF h m] by simp
qed

subsection \<open>C7: the count grows with the threshold\<close>

text \<open>
  Claim C7: of two rows of a returned table, the one with the smaller threshold has the
  smaller or the same count.
\<close>

theorem days_below_monotone:
  assumes "table_weather df (low, high) = Inr rows"
    and "r1 \<in> set rows" and "r2 \<in> set rows" and "Temp r1 < Temp r2"
  shows "Days_Below r1 \<le> Days_Below r2"
proof -
  have r1: "r1 = final_row w_y df (Temp r1)"
    using assms(1,2) by (rule table_weather_rows)
  have r2: "r2 = final_row w_y df (Temp r2)"
    using assms(1,3) by (rule table_weather_rows)
  have "days_below w_y df (Temp r1) \<le> days_below w_y df (Temp r2)"
    using assms(4) by (simp add: days_below_mono)
  moreover have "Days_Below r1 = days_below w_y df (Temp r1)"
    by (subst r1) (simp add: final_row_def)
  moreover have "Days_Below r2 = days_below w_y df (Temp r2)"
    by (subst r2) (simp add: final_row_def)
  ultimately show ?thesis by simp
qed

theorem days_below_monotone_witness:
  "table_weather [\<lparr>w_ds = 0, w_y = Finite 5\<rparr>, \<lparr>w_ds = 86400, w_y = Finite (31 / 2)\<rparr>,
      \<lparr>w_ds = 172800, w_y = Finite 25\<rparr>] (15, 16) =
     Inr [\<lparr>Temp = 16, Days_Below = 2, Proportion_Below = 667 / 1000\<rparr>,
          \<lparr>Temp = 15, Days_Below = 1, Proportion_Below = 333 / 1000\<rparr>] \<and>
   Days_Below \<lparr>Temp = 15, Days_Below = 1, Proportion_Below = 333 / 1000 :: rat\<rparr> \<le>
   Days_Below \<lparr>Temp = 16, Days_Below = 2, Proportion_Below = 667 / 1000 :: rat\<rparr>"
proof -
  have h: "table_weather [\<lparr>w_ds = 0, w_y = Finite 5\<rparr>, \<lparr>w_ds = 86400, w_y = Finite (31 / 2)\<rparr>,
      \<lparr>w_ds = 172800, w_y = Finite 25\<rparr>] (15, 16) =
     Inr [\<lparr>Temp = 16, Days_Below = 2, Proportion_Below = 667 / 1000\<rparr>,
          \<lparr>Temp = 15, Days_Below = 1, Proportion_Below = 333 / 1000\<rparr>]"
    by (simp add: table_weather_def py_range_def py_truediv_def Let_def sort_values_desc_def
      round_proportion_def round_decimals_def rint_def)
  show ?thesis
    using h days_below_monotone [OF h,
      of "\<lparr>Temp = 15, Days_Below = 1, Proportion_Below = 333 / 1000\<rparr>"
         "\<lparr>Temp = 16, Days_Below = 2, Proportion_Below = 667 / 1000\<rparr>"]
    by simp
qed

subsection \<open>C8: no effect, and no input but the series and the range\<close>



subsection \<open>C9: the forecast needs 365 rows\<close>

text \<open>
  Claim C9: on a frame of 364 rows or fewer the forecast is cancelled before the model is
  fitted (the log of fitted frames is unchanged), and the plot and the table of the
  forecast are cancelled with it; a forecast that is produced comes from a frame of more
  than 364 rows; and every frame the call adds to the log of fitted frames has more than
  364 rows.
\<close>

theorem forecast_requires_365_rows:
  "(length df \<le> 364 \<longrightarrow>
      forecast fit predict df trend years fitted = (Inl SilentException, fitted) \<and>
      plot_forecast plot (fst (forecast fit predict df trend years fitted)) units temp =
        Inl SilentException \<and>
      table_forecast (fst (forecast fit predict df trend years fitted)) rng =
        Inl SilentException) \<and>
   (fst (forecast fit predict df trend years fitted) = Inr res \<longrightarrow> 364 < length df) \<and>
   (d \<in> set (snd (forecast fit predict df trend years fitted)) \<longrightarrow>
      d \<in> set fitted \<or> 364 < length d)"
  by (auto simp: forecast_def req_def plot_forecast_def table_forecast_def
      split: sum.splits if_splits)

theorem forecast_requires_365_rows_witness:
  "forecast (\<lambda>growth df. Inr ()) (\<lambda>m periods. Inr [])
     (replicate 364 \<lparr>w_ds = 0, w_y = Finite 5\<rparr>) ''flat'' 1 [] = (Inl SilentException, []) \<and>
   table_forecast (fst (forecast (\<lambda>growth df. Inr ()) (\<lambda>m periods. Inr [])
     (replicate 364 \<lparr>w_ds = 0, w_y = Finite 5\<rparr>) ''flat'' 1 [])) (0, 15) = Inl SilentException \<and>
   fst (forecast (\<lambda>growth df. Inr ()) (\<lambda>m periods. Inr [])
     (replicate 365 \<lparr>w_ds = 0, w_y = Finite 5\<rparr>) ''flat'' 1 []) = Inr ((), []) \<and>
   (364::nat) < length (replicate 365 \<lparr>w_ds = 0, w_y = Finite 5\<rparr>) \<and>
   snd (forecast (\<lambda>growth df. Inr ()) (\<lambda>m periods. Inr [])
     (replicate 365 \<lparr>w_ds = 0, w_y = Finite 5\<rparr>) ''flat'' 1 []) =
     [replicate 365 \<lparr>w_ds = 0, w_y = Finite 5\<rparr>]"
  using forecast_requires_365_rows
    [of "replicate 364 \<lparr>w_ds = 0, w_y = Finite 5\<rparr>" "\<lambda>growth df. Inr ()" "\<lambda>m periods. Inr []"
        "''flat''" 1 "[]" "\<lambda>m df label temp. ()" "''celsius''" 0 "(0, 15)" "((), [])" "[]"]
    forecast_requires_365_rows
    [of "replicate 365 \<lparr>w_ds = 0, w_y = Finite 5\<rparr>" "\<lambda>growth df. Inr ()" "\<lambda>m periods. Inr []"
        "''flat''" 1 "[]" "\<lambda>m df label temp. ()" "''celsius''" 0 "(0, 15)" "((), [])"
        "replicate 365 \<lparr>w_ds = 0, w_y = Finite 5\<rparr>"]
  by (simp add: forecast_def req_def)

subsection \<open>C10: the table of cities\<close>



end
